theory Spec2Isabelle
  imports Complex_Main
begin

section \<open>Shearing-sheet boundary remap of hgb.c\<close>

text \<open>
  This theory embeds the shearing-sheet boundary routine \<^verbatim>\<open>shear_ix1_ox1\<close> and the
  remap kernel \<^verbatim>\<open>CompRemapFlux\<close> of \<^verbatim>\<open>src/prob/hgb.c\<close>.

  Conventions of the embedding:
  \<^item> The C type \<^verbatim>\<open>Real\<close> (a double) is the type \<^typ>\<open>real\<close>: every statement below is
    one of exact arithmetic, rounding, infinities and NaN are outside the model.
  \<^item> The C type \<^verbatim>\<open>int\<close> is \<^typ>\<open>int\<close>; the index arithmetic of the routine stays far
    from the 32-bit range, so no wrap-around is written out.
  \<^item> C arrays are total functions from indices; which indices are read is the subject of
    lemmas, not of the array type.
  \<^item> The build configuration is the hydrodynamic, adiabatic one without passive scalars
    (\<^verbatim>\<open>ADIABATIC\<close> defined, \<^verbatim>\<open>MHD\<close> undefined, \<^verbatim>\<open>NSCALARS = 0\<close>), hence
    \<^verbatim>\<open>NVAR = 5\<close>. The inbound scalar loop of \<^verbatim>\<open>shear_ix1_ox1\<close> (lines 406--409) is not
    well-formed C, so the file only compiles with \<^verbatim>\<open>NSCALARS = 0\<close>.
  \<^item> The reconstruction order (\<^verbatim>\<open>SECOND_ORDER\<close> or \<^verbatim>\<open>THIRD_ORDER\<close>) is a value of the
    datatype \<open>remap_order\<close> passed to the kernel.
\<close>

subsection \<open>C library and header macros\<close>

text \<open>The cast \<^verbatim>\<open>(int)x\<close> of a double: truncation toward zero.\<close>

definition int_cast :: "real \<Rightarrow> int" where
  "int_cast x = (if 0 \<le> x then \<lfloor>x\<rfloor> else \<lceil>x\<rceil>)"

text \<open>
  The C library function \<^verbatim>\<open>fmod(x, y)\<close>: the value \<open>x - n * y\<close> where \<open>n\<close> is \<open>x / y\<close>
  truncated toward zero, so that the result has the sign of \<open>x\<close> and a magnitude below
  that of \<open>y\<close>. The library computes this value without rounding. For \<open>y = 0\<close> the
  library returns NaN; the facts below that depend on the divisor assume it nonzero.
\<close>

definition fmod :: "real \<Rightarrow> real \<Rightarrow> real" where
  "fmod x y = x - real_of_int (int_cast (x / y)) * y"

text \<open>
  Modelled from the spec: the macros \<^verbatim>\<open>SQR\<close>, \<^verbatim>\<open>MIN\<close>, \<^verbatim>\<open>SIGN\<close> and the constant
  \<^verbatim>\<open>TWO_3RDS\<close> of the header \<^verbatim>\<open>defs.h\<close>, which is not among the sources. The spec
  writes them as the square, \<open>min\<close>, \<open>sign\<close> and \<open>2/3\<close> (\<^verbatim>\<open>MIN\<close> is named \<open>MIN2\<close> here,
  the name \<open>MIN\<close> being a binder of the library); \<open>SIGN\<close> of zero is taken as
  \<open>1\<close> (the kernel only multiplies by it where its argument is nonzero or the other
  factor is zero).
\<close>

definition SQR :: "real \<Rightarrow> real" where
  "SQR x = x * x"

definition MIN2 :: "real \<Rightarrow> real \<Rightarrow> real" where
  "MIN2 a b = (if a < b then a else b)"

definition SIGN :: "real \<Rightarrow> real" where
  "SIGN a = (if a < 0 then - 1 else 1)"

definition TWO_3RDS :: real where
  "TWO_3RDS = 2 / 3"

subsection \<open>The shear offset\<close>

text \<open>
  The locals \<^verbatim>\<open>deltay\<close>, \<^verbatim>\<open>j_offset\<close>, \<^verbatim>\<open>epsi\<close> and \<^verbatim>\<open>epso\<close> that
  \<^verbatim>\<open>shear_ix1_ox1\<close> computes once at entry (lines 340--351), from the globals
  \<^verbatim>\<open>Omega\<close>, \<^verbatim>\<open>Lx\<close>, \<^verbatim>\<open>Ly\<close> and the grid's \<^verbatim>\<open>time\<close> and \<^verbatim>\<open>dx2\<close>.
\<close>

record offsets =
  deltay :: real
  j_offset :: int
  epsi :: real
  epso :: real

definition yshear :: "real \<Rightarrow> real \<Rightarrow> real \<Rightarrow> real" where
  "yshear Omega Lx t = 1.5 * Omega * Lx * t"

definition shear_offsets :: "real \<Rightarrow> real \<Rightarrow> real \<Rightarrow> real \<Rightarrow> real \<Rightarrow> offsets" where
  "shear_offsets Omega Lx Ly t dx2 =
     (let dy = fmod (yshear Omega Lx t) Ly;
          jo = int_cast (dy / dx2);
          ei = fmod dy dx2 / dx2
      in \<lparr>deltay = dy, j_offset = jo, epsi = ei, epso = - ei\<rparr>)"

subsection \<open>Conserved variables\<close>

text \<open>
  The struct \<^verbatim>\<open>Gas\<close> of the configuration above: density, three momenta and total
  energy, in the order of the struct's fields.
\<close>

record Gas =
  d :: real
  M1 :: real
  M2 :: real
  M3 :: real
  E :: real

definition NVAR :: nat where
  "NVAR = 5"

text \<open>
  The kernel reads a cell through the cast \<^verbatim>\<open>(Real* )&(U[i])\<close>, as an array of its
  \<open>NVAR\<close> fields, and writes a flux cell through the same cast, one assignment for every
  \<open>n < NVAR\<close>. \<open>Real_ptr g n\<close> is the read \<^verbatim>\<open>((Real* )&g)[n]\<close>; \<open>Gas_of_Reals p\<close> is the
  struct after the loop \<^verbatim>\<open>for (n=0; n<NVAR; n++) pFlux[n] = p(n)\<close>.
\<close>

definition Real_ptr :: "Gas \<Rightarrow> nat \<Rightarrow> real" where
  "Real_ptr g n = [d g, M1 g, M2 g, M3 g, E g] ! n"

definition Gas_of_Reals :: "(nat \<Rightarrow> real) \<Rightarrow> Gas" where
  "Gas_of_Reals p = \<lparr>d = p 0, M1 = p 1, M2 = p 2, M3 = p 3, E = p 4\<rparr>"

text \<open>
  Step 1 of the kernel stores the pointer \<^verbatim>\<open>pU[i] = (Real* )&(U[i])\<close> for every cell of
  the stencil (\<open>[il-2, iu+2]\<close>, or \<open>[il-3, iu+3]\<close> for the third order); every later read
  \<^verbatim>\<open>pU[i][n]\<close> is inside that range, so it is the read of field \<open>n\<close> of \<open>U[i]\<close>.
\<close>

definition pU :: "(int \<Rightarrow> Gas) \<Rightarrow> int \<Rightarrow> nat \<Rightarrow> real" where
  "pU U i n = Real_ptr (U i) n"

subsection \<open>Loops\<close>

text \<open>The loop \<^verbatim>\<open>for (i = lo; i <= hi; i++) s = body(i, s)\<close>.\<close>

function for_loop :: "int \<Rightarrow> int \<Rightarrow> (int \<Rightarrow> 's \<Rightarrow> 's) \<Rightarrow> 's \<Rightarrow> 's" where
  "for_loop i hi body s = (if i \<le> hi then for_loop (i + 1) hi body (body i s) else s)"
  by pat_completeness auto
termination
  by (relation "measure (\<lambda>(i, hi, body, s). nat (hi + 1 - i))") auto

declare for_loop.simps [simp del]

subsection \<open>CompRemapFlux, second order\<close>

text \<open>Step 2: centred, left and right differences of component \<open>n\<close> at cell \<open>i\<close>.\<close>

definition dUc :: "(int \<Rightarrow> Gas) \<Rightarrow> int \<Rightarrow> nat \<Rightarrow> real" where
  "dUc U i n = pU U (i + 1) n - pU U (i - 1) n"

definition dUl :: "(int \<Rightarrow> Gas) \<Rightarrow> int \<Rightarrow> nat \<Rightarrow> real" where
  "dUl U i n = pU U i n - pU U (i - 1) n"

definition dUr :: "(int \<Rightarrow> Gas) \<Rightarrow> int \<Rightarrow> nat \<Rightarrow> real" where
  "dUr U i n = pU U (i + 1) n - pU U i n"

text \<open>Step 3: the monotonicity constraint.\<close>

definition dUm :: "(int \<Rightarrow> Gas) \<Rightarrow> int \<Rightarrow> nat \<Rightarrow> real" where
  "dUm U i n =
     (if dUl U i n * dUr U i n > 0 then
        (let lim_slope = MIN2 \<bar>dUl U i n\<bar> \<bar>dUr U i n\<bar>
         in SIGN (dUc U i n) * MIN2 (0.5 * \<bar>dUc U i n\<bar>) (2.0 * lim_slope))
      else 0.0)"

text \<open>Step 4: the component loop of either branch, then one pass of the loop over \<open>i\<close>.
  The flux is stored at \<open>i + 1\<close> for a positive \<open>eps\<close> and at \<open>i\<close> otherwise.\<close>

definition flux_pos_2nd :: "(int \<Rightarrow> Gas) \<Rightarrow> real \<Rightarrow> int \<Rightarrow> Gas" where
  "flux_pos_2nd U eps i = Gas_of_Reals (\<lambda>n. eps * (pU U i n + 0.5 * (1.0 - eps) * dUm U i n))"

definition flux_neg_2nd :: "(int \<Rightarrow> Gas) \<Rightarrow> real \<Rightarrow> int \<Rightarrow> Gas" where
  "flux_neg_2nd U eps i = Gas_of_Reals (\<lambda>n. eps * (pU U i n - 0.5 * (1.0 + eps) * dUm U i n))"

definition remap_step_2nd ::
  "(int \<Rightarrow> Gas) \<Rightarrow> real \<Rightarrow> int \<Rightarrow> (int \<Rightarrow> Gas) \<Rightarrow> (int \<Rightarrow> Gas)" where
  "remap_step_2nd U eps i Flux =
     (if eps > 0.0 then Flux(i + 1 := flux_pos_2nd U eps i)
      else Flux(i := flux_neg_2nd U eps i))"

definition CompRemapFlux_2nd ::
  "(int \<Rightarrow> Gas) \<Rightarrow> real \<Rightarrow> int \<Rightarrow> int \<Rightarrow> (int \<Rightarrow> Gas) \<Rightarrow> (int \<Rightarrow> Gas)" where
  "CompRemapFlux_2nd U eps il iu Flux = for_loop (il - 1) (iu + 1) (remap_step_2nd U eps) Flux"

subsection \<open>CompRemapFlux, third order\<close>

text \<open>
  Step 2, component \<open>n\<close> of one pass: the four-point interface value, its curvature
  limiter, and the value left in \<^verbatim>\<open>Uhalf[i][n]\<close>.
\<close>

definition Uhalf_val :: "(int \<Rightarrow> Gas) \<Rightarrow> int \<Rightarrow> nat \<Rightarrow> real" where
  "Uhalf_val U i n =
     (let Uh = (7.0 * (pU U (i - 1) n + pU U i n) - (pU U (i - 2) n + pU U (i + 1) n)) / 12.0;
          d2Uc = 3.0 * (pU U (i - 1) n - 2.0 * Uh + pU U i n);
          d2Ul = pU U (i - 2) n - 2.0 * pU U (i - 1) n + pU U i n;
          d2Ur = pU U (i - 1) n - 2.0 * pU U i n + pU U (i + 1) n;
          d2Ulim = 0.0;
          lim_slope = MIN2 \<bar>d2Ul\<bar> \<bar>d2Ur\<bar>;
          d2Ulim = (if d2Uc > 0.0 \<and> d2Ul > 0.0 \<and> d2Ur > 0.0
                    then SIGN d2Uc * MIN2 (1.25 * lim_slope) \<bar>d2Uc\<bar> else d2Ulim);
          d2Ulim = (if d2Uc < 0.0 \<and> d2Ul < 0.0 \<and> d2Ur < 0.0
                    then SIGN d2Uc * MIN2 (1.25 * lim_slope) \<bar>d2Uc\<bar> else d2Ulim)
      in 0.5 * ((pU U (i - 1) n + pU U i n) - d2Ulim / 3.0))"

definition Uhalf_step ::
  "(int \<Rightarrow> Gas) \<Rightarrow> int \<Rightarrow> (int \<Rightarrow> nat \<Rightarrow> real) \<Rightarrow> (int \<Rightarrow> nat \<Rightarrow> real)" where
  "Uhalf_step U i Uhalf = Uhalf(i := Uhalf_val U i)"

text \<open>Step 4, component \<open>n\<close>: the parabolic interpolant, from the pair \<open>(Ulv, Urv)\<close> of
  step 3 to the pair after the step.\<close>

definition edges_step4 :: "(int \<Rightarrow> Gas) \<Rightarrow> int \<Rightarrow> nat \<Rightarrow> real \<times> real \<Rightarrow> real \<times> real" where
  "edges_step4 U i n = (\<lambda>(Ulv, Urv).
     let qa = (Urv - pU U i n) * (pU U i n - Ulv);
         qb = (pU U (i - 1) n - pU U i n) * (pU U i n - pU U (i + 1) n)
     in if qa \<le> 0.0 \<and> qb \<le> 0.0 then
          (let qc = 6.0 * (pU U i n - 0.5 * (Ulv + Urv));
               d2U = - 2.0 * qc;
               d2Uc = pU U (i - 1) n - 2.0 * pU U i n + pU U (i + 1) n;
               d2Ul = pU U (i - 2) n - 2.0 * pU U (i - 1) n + pU U i n;
               d2Ur = pU U i n - 2.0 * pU U (i + 1) n + pU U (i + 2) n;
               d2Ulim = 0.0;
               lim_slope = MIN2 \<bar>d2Ul\<bar> \<bar>d2Ur\<bar>;
               lim_slope = MIN2 \<bar>d2Uc\<bar> lim_slope;
               d2Ulim = (if d2Uc > 0.0 \<and> d2Ul > 0.0 \<and> d2Ur > 0.0 \<and> d2U > 0.0
                         then SIGN d2U * MIN2 (1.25 * lim_slope) \<bar>d2U\<bar> else d2Ulim);
               d2Ulim = (if d2Uc < 0.0 \<and> d2Ul < 0.0 \<and> d2Ur < 0.0 \<and> d2U < 0.0
                         then SIGN d2U * MIN2 (1.25 * lim_slope) \<bar>d2U\<bar> else d2Ulim)
           in if d2U = 0.0 then (pU U i n, pU U i n)
              else (pU U i n + (Ulv - pU U i n) * d2Ulim / d2U,
                    pU U i n + (Urv - pU U i n) * d2Ulim / d2U))
        else (Ulv, Urv))"

text \<open>Step 5, component \<open>n\<close>: the second monotonisation.\<close>

definition edges_step5 :: "(int \<Rightarrow> Gas) \<Rightarrow> int \<Rightarrow> nat \<Rightarrow> real \<times> real \<Rightarrow> real \<times> real" where
  "edges_step5 U i n = (\<lambda>(Ulv, Urv).
     let qa = (Urv - pU U i n) * (pU U i n - Ulv);
         qb = Urv - Ulv;
         qc = 6.0 * (pU U i n - 0.5 * (Ulv + Urv))
     in if qa \<le> 0.0 then (pU U i n, pU U i n)
        else if (qb * qc) > (qb * qb) then (3.0 * pU U i n - 2.0 * Urv, Urv)
        else if (qb * qc) < - (qb * qb) then (Ulv, 3.0 * pU U i n - 2.0 * Ulv)
        else (Ulv, Urv))"

text \<open>Steps 3 to 5 for component \<open>n\<close> of cell \<open>i\<close>, reading the interface values of
  step 2 from \<^verbatim>\<open>Uhalf\<close>: the final \<^verbatim>\<open>Ulv[n]\<close> and \<^verbatim>\<open>Urv[n]\<close>.\<close>

definition edges :: "(int \<Rightarrow> Gas) \<Rightarrow> (int \<Rightarrow> nat \<Rightarrow> real) \<Rightarrow> int \<Rightarrow> nat \<Rightarrow> real \<times> real" where
  "edges U Uhalf i n = edges_step5 U i n (edges_step4 U i n (Uhalf i n, Uhalf (i + 1) n))"

definition Ulv :: "(int \<Rightarrow> Gas) \<Rightarrow> (int \<Rightarrow> nat \<Rightarrow> real) \<Rightarrow> int \<Rightarrow> nat \<Rightarrow> real" where
  "Ulv U Uhalf i n = fst (edges U Uhalf i n)"

definition Urv :: "(int \<Rightarrow> Gas) \<Rightarrow> (int \<Rightarrow> nat \<Rightarrow> real) \<Rightarrow> int \<Rightarrow> nat \<Rightarrow> real" where
  "Urv U Uhalf i n = snd (edges U Uhalf i n)"

text \<open>Step 6: the coefficients of the parabola.\<close>

definition dU :: "(int \<Rightarrow> Gas) \<Rightarrow> (int \<Rightarrow> nat \<Rightarrow> real) \<Rightarrow> int \<Rightarrow> nat \<Rightarrow> real" where
  "dU U Uhalf i n = Urv U Uhalf i n - Ulv U Uhalf i n"

definition U6 :: "(int \<Rightarrow> Gas) \<Rightarrow> (int \<Rightarrow> nat \<Rightarrow> real) \<Rightarrow> int \<Rightarrow> nat \<Rightarrow> real" where
  "U6 U Uhalf i n = 6.0 * (pU U i n - 0.5 * (Ulv U Uhalf i n + Urv U Uhalf i n))"

text \<open>Step 7: the component loop of either branch, then one pass of the loop over \<open>i\<close>.\<close>

definition flux_pos_3rd :: "(int \<Rightarrow> Gas) \<Rightarrow> (int \<Rightarrow> nat \<Rightarrow> real) \<Rightarrow> real \<Rightarrow> int \<Rightarrow> Gas" where
  "flux_pos_3rd U Uhalf eps i =
     (let qx = TWO_3RDS * eps
      in Gas_of_Reals (\<lambda>n. eps * (Urv U Uhalf i n
                                - 0.75 * qx * (dU U Uhalf i n - (1.0 - qx) * U6 U Uhalf i n))))"

definition flux_neg_3rd :: "(int \<Rightarrow> Gas) \<Rightarrow> (int \<Rightarrow> nat \<Rightarrow> real) \<Rightarrow> real \<Rightarrow> int \<Rightarrow> Gas" where
  "flux_neg_3rd U Uhalf eps i =
     (let qx = - TWO_3RDS * eps
      in Gas_of_Reals (\<lambda>n. eps * (Ulv U Uhalf i n
                                + 0.75 * qx * (dU U Uhalf i n + (1.0 - qx) * U6 U Uhalf i n))))"

definition remap_step_3rd ::
  "(int \<Rightarrow> Gas) \<Rightarrow> (int \<Rightarrow> nat \<Rightarrow> real) \<Rightarrow> real \<Rightarrow> int \<Rightarrow> (int \<Rightarrow> Gas) \<Rightarrow> (int \<Rightarrow> Gas)" where
  "remap_step_3rd U Uhalf eps i Flux =
     (if eps > 0.0 then Flux(i + 1 := flux_pos_3rd U Uhalf eps i)
      else Flux(i := flux_neg_3rd U Uhalf eps i))"

text \<open>The kernel: the loop of step 2 over \<open>[il-1, iu+2]\<close> fills the static array
  \<^verbatim>\<open>Uhalf\<close>, the loop of steps 3 to 7 over \<open>[il-1, iu+1]\<close> reads it and fills \<open>Flux\<close>.\<close>

definition CompRemapFlux_3rd ::
  "(int \<Rightarrow> Gas) \<Rightarrow> real \<Rightarrow> int \<Rightarrow> int \<Rightarrow> (int \<Rightarrow> nat \<Rightarrow> real) \<times> (int \<Rightarrow> Gas)
     \<Rightarrow> (int \<Rightarrow> nat \<Rightarrow> real) \<times> (int \<Rightarrow> Gas)" where
  "CompRemapFlux_3rd U eps il iu = (\<lambda>(Uhalf, Flux).
     let Uhalf = for_loop (il - 1) (iu + 2) (Uhalf_step U) Uhalf;
         Flux = for_loop (il - 1) (iu + 1) (remap_step_3rd U Uhalf eps) Flux
     in (Uhalf, Flux))"

subsection \<open>CompRemapFlux in either configuration\<close>

datatype remap_order = SECOND_ORDER | THIRD_ORDER

text \<open>The kernel of the build selected by the order; its state is the static \<^verbatim>\<open>Uhalf\<close>
  (untouched by the second-order kernel) and the output array \<open>Flux\<close>.\<close>

definition CompRemapFlux ::
  "remap_order \<Rightarrow> (int \<Rightarrow> Gas) \<Rightarrow> real \<Rightarrow> int \<Rightarrow> int
     \<Rightarrow> (int \<Rightarrow> nat \<Rightarrow> real) \<times> (int \<Rightarrow> Gas) \<Rightarrow> (int \<Rightarrow> nat \<Rightarrow> real) \<times> (int \<Rightarrow> Gas)" where
  "CompRemapFlux ord U eps il iu = (\<lambda>(Uhalf, Flux).
     case ord of
       SECOND_ORDER \<Rightarrow> (Uhalf, CompRemapFlux_2nd U eps il iu Flux)
     | THIRD_ORDER \<Rightarrow> CompRemapFlux_3rd U eps il iu (Uhalf, Flux))"

text \<open>The cells the kernel needs initialised on each side of \<open>[il, iu]\<close>.\<close>

definition halo :: "remap_order \<Rightarrow> int" where
  "halo ord = (case ord of SECOND_ORDER \<Rightarrow> 2 | THIRD_ORDER \<Rightarrow> 3)"

subsection \<open>The grid and the static arrays\<close>

text \<open>
  The fields of the struct \<^verbatim>\<open>Grid\<close> that \<^verbatim>\<open>shear_ix1_ox1\<close> uses; the struct is
  declared in the header \<^verbatim>\<open>athena.h\<close>. The fields carry the prefix \<open>G_\<close> (\<open>is\<close> is a
  keyword here). \<open>G_U G k j i\<close> is the cell \<^verbatim>\<open>pG->U[k][j][i]\<close>.
\<close>

record Grid =
  G_is :: int
  G_ie :: int
  G_js :: int
  G_je :: int
  G_ks :: int
  G_ke :: int
  G_Nx2 :: int
  G_dx2 :: real
  G_time :: real
  G_U :: "int \<Rightarrow> int \<Rightarrow> int \<Rightarrow> Gas"

text \<open>
  The memory that \<^verbatim>\<open>shear_ix1_ox1\<close> reads and writes: the grid behind the pointer
  \<^verbatim>\<open>pG\<close> and the file's static arrays \<^verbatim>\<open>RemapGas\<close>, \<^verbatim>\<open>Flx\<close> and \<^verbatim>\<open>Uhalf\<close>.
\<close>

record memory =
  pG :: Grid
  RemapGas :: "int \<Rightarrow> int \<Rightarrow> Gas"
  Flx :: "int \<Rightarrow> Gas"
  Uhalf :: "int \<Rightarrow> nat \<Rightarrow> real"

text \<open>The assignments \<^verbatim>\<open>RemapGas[i][j] = v\<close> and \<^verbatim>\<open>pG->U[k][j][i] = v\<close>.\<close>

definition set_RemapGas :: "int \<Rightarrow> int \<Rightarrow> Gas \<Rightarrow> memory \<Rightarrow> memory" where
  "set_RemapGas i j v s = s\<lparr>RemapGas := (RemapGas s)(i := (RemapGas s i)(j := v))\<rparr>"

definition set_U :: "int \<Rightarrow> int \<Rightarrow> int \<Rightarrow> Gas \<Rightarrow> memory \<Rightarrow> memory" where
  "set_U k j i v s =
     s\<lparr>pG := (pG s)\<lparr>G_U := (G_U (pG s))(k := (G_U (pG s) k)(j := (G_U (pG s) k j)(i := v)))\<rparr>\<rparr>"

subsection \<open>shear_ix1_ox1: gathering\<close>

text \<open>The source row of row \<open>j\<close>: the integer offset and its single conditional wrap
  (lines 360--361 for the inbound face, 422--423 for the outbound face).\<close>

definition j_remap_ix1 :: "int \<Rightarrow> int \<Rightarrow> int \<Rightarrow> int \<Rightarrow> int" where
  "j_remap_ix1 js Nx2 joff j =
     (let j_remap = j - joff
      in if j_remap < js then j_remap + Nx2 else j_remap)"

definition j_remap_ox1 :: "int \<Rightarrow> int \<Rightarrow> int \<Rightarrow> int \<Rightarrow> int" where
  "j_remap_ox1 je Nx2 joff j =
     (let j_remap = j + joff
      in if j_remap > je then j_remap - Nx2 else j_remap)"

text \<open>
  The assignments to the fields of \<^verbatim>\<open>RemapGas[i][j]\<close> from the source cell \<open>src\<close> of the
  grid (lines 365--375 and 427--437), in the order of the code: the cell \<open>r\<close> is the old
  \<^verbatim>\<open>RemapGas[i][j]\<close>, every field of which is overwritten.
\<close>

definition gather_ix1 :: "real \<Rightarrow> real \<Rightarrow> Gas \<Rightarrow> Gas \<Rightarrow> Gas" where
  "gather_ix1 Omega Lx src r =
     (let r = r\<lparr>d := d src\<rparr>;
          r = r\<lparr>M1 := M1 src\<rparr>;
          r = r\<lparr>M2 := M2 src\<rparr>;
          r = r\<lparr>M2 := M2 r + 1.5 * Omega * Lx * d r\<rparr>;
          r = r\<lparr>M3 := M3 src\<rparr>;
          r = r\<lparr>E := E src\<rparr>;
          r = r\<lparr>E := E r + (0.5 / d r) * (SQR (M2 r) - SQR (M2 src))\<rparr>
      in r)"

definition gather_ox1 :: "real \<Rightarrow> real \<Rightarrow> Gas \<Rightarrow> Gas \<Rightarrow> Gas" where
  "gather_ox1 Omega Lx src r =
     (let r = r\<lparr>d := d src\<rparr>;
          r = r\<lparr>M1 := M1 src\<rparr>;
          r = r\<lparr>M2 := M2 src\<rparr>;
          r = r\<lparr>M2 := M2 r - 1.5 * Omega * Lx * d r\<rparr>;
          r = r\<lparr>M3 := M3 src\<rparr>;
          r = r\<lparr>E := E src\<rparr>;
          r = r\<lparr>E := E r + (0.5 / d r) * (SQR (M2 r) - SQR (M2 src))\<rparr>
      in r)"

text \<open>The gather loops over \<open>j\<close> and \<open>i\<close> of one \<open>k\<close>-slice.\<close>

definition gather_loop_ix1 :: "real \<Rightarrow> real \<Rightarrow> int \<Rightarrow> int \<Rightarrow> int \<Rightarrow> int \<Rightarrow> int \<Rightarrow> int
    \<Rightarrow> memory \<Rightarrow> memory" where
  "gather_loop_ix1 Omega Lx nghost ie js je joff k =
     for_loop js je (\<lambda>j s.
       let j_remap = j_remap_ix1 js (G_Nx2 (pG s)) joff j
       in for_loop 0 (nghost - 1) (\<lambda>i s.
            set_RemapGas i j
              (gather_ix1 Omega Lx (G_U (pG s) k j_remap (ie - nghost + 1 + i)) (RemapGas s i j)) s) s)"

definition gather_loop_ox1 :: "real \<Rightarrow> real \<Rightarrow> int \<Rightarrow> int \<Rightarrow> int \<Rightarrow> int \<Rightarrow> int \<Rightarrow> int
    \<Rightarrow> memory \<Rightarrow> memory" where
  "gather_loop_ox1 Omega Lx nghost is js je joff k =
     for_loop js je (\<lambda>j s.
       let j_remap = j_remap_ox1 je (G_Nx2 (pG s)) joff j
       in for_loop 0 (nghost - 1) (\<lambda>i s.
            set_RemapGas i j
              (gather_ox1 Omega Lx (G_U (pG s) k j_remap (is + i)) (RemapGas s i j)) s) s)"

text \<open>The y-periodicity of \<^verbatim>\<open>RemapGas\<close> (lines 384--389 and 446--451): two assignments
  per pass, the second reading the array the first has written.\<close>

definition periodic_loop :: "int \<Rightarrow> int \<Rightarrow> int \<Rightarrow> memory \<Rightarrow> memory" where
  "periodic_loop nghost js je =
     for_loop 0 (nghost - 1) (\<lambda>i.
       for_loop 1 nghost (\<lambda>j s.
         let s = set_RemapGas i (js - j) (RemapGas s i (je + 1 - j)) s;
             s = set_RemapGas i (je + j) (RemapGas s i (js + j - 1)) s
         in s))"

subsection \<open>shear_ix1_ox1: the conservative remap into the ghost zones\<close>

text \<open>The field assignments of one ghost cell (lines 399--404 and 461--466): \<open>R\<close> is
  \<^verbatim>\<open>RemapGas[i][j]\<close>, \<open>Fp\<close> is \<^verbatim>\<open>Flx[j+1]\<close>, \<open>Fm\<close> is \<^verbatim>\<open>Flx[j]\<close> and \<open>c\<close> the
  old ghost cell.\<close>

definition remap_cell :: "Gas \<Rightarrow> Gas \<Rightarrow> Gas \<Rightarrow> Gas \<Rightarrow> Gas" where
  "remap_cell R Fp Fm c =
     (let c = c\<lparr>d := d R - (d Fp - d Fm)\<rparr>;
          c = c\<lparr>M1 := M1 R - (M1 Fp - M1 Fm)\<rparr>;
          c = c\<lparr>M2 := M2 R - (M2 Fp - M2 Fm)\<rparr>;
          c = c\<lparr>M3 := M3 R - (M3 Fp - M3 Fm)\<rparr>;
          c = c\<lparr>E := E R - (E Fp - E Fm)\<rparr>
      in c)"

text \<open>The call \<^verbatim>\<open>CompRemapFlux(RemapGas[i], eps, js, je+1, Flx)\<close>.\<close>

definition call_CompRemapFlux :: "remap_order \<Rightarrow> int \<Rightarrow> real \<Rightarrow> int \<Rightarrow> int \<Rightarrow> memory \<Rightarrow> memory" where
  "call_CompRemapFlux ord i eps il iu s =
     (let (Uh, F) = CompRemapFlux ord (RemapGas s i) eps il iu (Uhalf s, Flx s)
      in s\<lparr>Uhalf := Uh, Flx := F\<rparr>)"

text \<open>The remap loops of one \<open>k\<close>-slice; \<open>i0\<close> is the first ghost column, \<open>is - nghost\<close>
  on the inbound face and \<open>ie + 1\<close> on the outbound face.\<close>

definition remap_loop :: "remap_order \<Rightarrow> int \<Rightarrow> int \<Rightarrow> int \<Rightarrow> int \<Rightarrow> real \<Rightarrow> int
    \<Rightarrow> memory \<Rightarrow> memory" where
  "remap_loop ord nghost i0 js je eps k =
     for_loop 0 (nghost - 1) (\<lambda>i s.
       let s = call_CompRemapFlux ord i eps js (je + 1) s
       in for_loop js je (\<lambda>j s.
            set_U k j (i0 + i)
              (remap_cell (RemapGas s i j) (Flx s (j + 1)) (Flx s j) (G_U (pG s) k j (i0 + i))) s) s)"

subsection \<open>shear_ix1_ox1\<close>

text \<open>
  The routine. \<open>Omega\<close>, \<open>Lx\<close> and \<open>Ly\<close> are the globals set by the problem generator,
  \<open>nghost\<close> is the ghost depth, a macro of the header \<^verbatim>\<open>defs.h\<close>. The grid bounds are
  copied into locals at entry, and the offsets are computed once, before both faces.
\<close>

definition shear_ix1_ox1 :: "remap_order \<Rightarrow> real \<Rightarrow> real \<Rightarrow> real \<Rightarrow> int \<Rightarrow> memory \<Rightarrow> int \<Rightarrow> memory" where
  "shear_ix1_ox1 ord Omega Lx Ly nghost s var_flag =
     (if var_flag = 1 then s
      else
        let is = G_is (pG s); ie = G_ie (pG s);
            js = G_js (pG s); je = G_je (pG s);
            ks = G_ks (pG s); ke = G_ke (pG s);
            off = shear_offsets Omega Lx Ly (G_time (pG s)) (G_dx2 (pG s));
            s = for_loop ks ke (\<lambda>k s.
                  let s = gather_loop_ix1 Omega Lx nghost ie js je (j_offset off) k s;
                      s = periodic_loop nghost js je s;
                      s = remap_loop ord nghost (is - nghost) js je (epsi off) k s
                  in s) s;
            s = for_loop ks ke (\<lambda>k s.
                  let s = gather_loop_ox1 Omega Lx nghost is js je (j_offset off) k s;
                      s = periodic_loop nghost js je s;
                      s = remap_loop ord nghost (ie + 1) js je (epso off) k s
                  in s) s
        in s)"

text \<open>The internal energy of a cell: the total energy less the kinetic energy of the
  three momenta.\<close>

definition internal_energy :: "Gas \<Rightarrow> real" where
  "internal_energy g = E g - (SQR (M1 g) + SQR (M2 g) + SQR (M3 g)) / (2 * d g)"

subsection \<open>Frame of the grid array\<close>

text \<open>\<open>same_outside W s s'\<close>: the memory \<open>s'\<close> holds in every cell of \<^verbatim>\<open>pG->U\<close> whose
  column index \<open>i\<close> is outside the set \<open>W\<close> the value that \<open>s\<close> holds there.\<close>

definition same_outside :: "(int \<Rightarrow> bool) \<Rightarrow> memory \<Rightarrow> memory \<Rightarrow> bool" where
  "same_outside W s s' = (\<forall>k j i. \<not> W i \<longrightarrow> G_U (pG s') k j i = G_U (pG s) k j i)"

subsection \<open>Facts about the library functions\<close>

lemma int_cast_zero: "int_cast 0 = 0"
  by (simp add: int_cast_def)

lemma int_cast_one: "int_cast 1 = 1"
  by (simp add: int_cast_def)

lemma fmod_zero_left: "fmod 0 y = 0"
  by (simp add: fmod_def int_cast_zero)

lemma fmod_self: "y \<noteq> 0 \<Longrightarrow> fmod y y = 0"
  by (simp add: fmod_def int_cast_one)

lemma fmod_nonneg_range:
  assumes "0 \<le> x" and "0 < y"
  shows "0 \<le> fmod x y \<and> fmod x y < y"
proof -
  have q: "0 \<le> x / y" using assms by simp
  let ?n = "\<lfloor>x / y\<rfloor>"
  have lo: "real_of_int ?n \<le> x / y" by (rule of_int_floor_le)
  have hi: "x / y < real_of_int ?n + 1" by linarith
  have xy: "x / y * y = x" using assms(2) by simp
  have "real_of_int ?n * y \<le> x / y * y"
    by (rule mult_right_mono [OF lo]) (use assms(2) in simp)
  then have "real_of_int ?n * y \<le> x" by (simp only: xy)
  moreover have "x / y * y < (real_of_int ?n + 1) * y"
    by (rule mult_strict_right_mono [OF hi assms(2)])
  then have "x < (real_of_int ?n + 1) * y" by (simp only: xy)
  ultimately show ?thesis
    using q by (simp add: fmod_def int_cast_def algebra_simps)
qed

text \<open>For a shear that is not negative the offsets are in the ranges the code's comment
  states.\<close>

lemma shear_offsets_nonneg_shear:
  assumes "0 \<le> yshear Omega Lx t" and "0 < Ly" and "0 < dx2"
  shows "0 \<le> deltay (shear_offsets Omega Lx Ly t dx2)"
    and "deltay (shear_offsets Omega Lx Ly t dx2) < Ly"
    and "0 \<le> epsi (shear_offsets Omega Lx Ly t dx2)"
    and "epsi (shear_offsets Omega Lx Ly t dx2) < 1"
proof -
  let ?dy = "fmod (yshear Omega Lx t) Ly"
  have dy: "0 \<le> ?dy \<and> ?dy < Ly"
    using assms(1,2) by (rule fmod_nonneg_range)
  then have e: "0 \<le> fmod ?dy dx2 \<and> fmod ?dy dx2 < dx2"
    using assms(3) by (intro fmod_nonneg_range) simp_all
  show "0 \<le> deltay (shear_offsets Omega Lx Ly t dx2)"
    and "deltay (shear_offsets Omega Lx Ly t dx2) < Ly"
    using dy by (simp_all add: shear_offsets_def Let_def)
  show "0 \<le> epsi (shear_offsets Omega Lx Ly t dx2)"
    and "epsi (shear_offsets Omega Lx Ly t dx2) < 1"
    using e assms(3) by (simp_all add: shear_offsets_def Let_def)
qed

subsection \<open>The shear offset: claims\<close>

text \<open>
  Claim C5 says that the wrapped shear \<open>deltay\<close> lies in \<open>[0, Ly)\<close> and the fractional
  cell \<open>epsi\<close> in \<open>[0, 1)\<close>, also when the total shear is negative. The code at such an
  input: with \<open>Omega = -1\<close>, \<open>Lx = 1\<close>, \<open>time = 1/4\<close>, \<open>Ly = 1\<close> and \<open>dx2 = 1/4\<close>
  the total shear is \<open>-3/8\<close>; \<^verbatim>\<open>fmod\<close> keeps the sign of its first argument and the
  code applies no sign correction, so \<open>deltay = -3/8\<close>, \<open>j_offset = -1\<close> and
  \<open>epsi = -1/2\<close>. Neither \<open>deltay\<close> nor \<open>epsi\<close> is in the range that the claim and the
  code's own comment (\<^verbatim>\<open>Note 0.0 <= epsi < 1.0\<close>) give; for a total shear that is not
  negative the ranges hold, by \<open>shear_offsets_nonneg_shear\<close>.
\<close>

theorem shear_offsets_negative_shear:
  "shear_offsets (- 1) 1 1 (1 / 4) (1 / 4)
     = \<lparr>deltay = - 3 / 8, j_offset = - 1, epsi = - 1 / 2, epso = 1 / 2\<rparr>"
  by (simp add: shear_offsets_def yshear_def fmod_def int_cast_def Let_def)

text \<open>
  Claim C6: on a grid of valid geometry (\<open>Ly > 0\<close>, \<open>dx2 > 0\<close>) the offset computation
  gives integer offset \<open>0\<close> and fractional offset \<open>0\<close> when \<open>time = 0\<close>, and also
  when the total shear \<open>1.5 * Omega * Lx * time\<close> equals the box length \<open>Ly\<close>.
\<close>

theorem shear_offsets_wrap:
  assumes "0 < Ly" and "0 < dx2" and "t = 0 \<or> yshear Omega Lx t = Ly"
  shows "j_offset (shear_offsets Omega Lx Ly t dx2) = 0
       \<and> epsi (shear_offsets Omega Lx Ly t dx2) = 0"
proof -
  have "fmod (yshear Omega Lx t) Ly = 0"
    using assms(1,3) by (auto simp: yshear_def fmod_zero_left fmod_self)
  then show ?thesis
    by (simp add: shear_offsets_def Let_def fmod_zero_left int_cast_zero)
qed

theorem shear_offsets_wrap_witness:
  "j_offset (shear_offsets 1 1 3 0 (1 / 2)) = 0
   \<and> epsi (shear_offsets 1 1 3 0 (1 / 2)) = 0
   \<and> yshear 1 1 2 = 3
   \<and> j_offset (shear_offsets 1 1 3 2 (1 / 2)) = 0
   \<and> epsi (shear_offsets 1 1 3 2 (1 / 2)) = 0"
  using shear_offsets_wrap [of 3 "1 / 2" 0 1 1] shear_offsets_wrap [of 3 "1 / 2" 2 1 1]
  by (simp add: yshear_def)

subsection \<open>Facts about loops\<close>

lemma for_loop_stop: "hi < i \<Longrightarrow> for_loop i hi body s = s"
  by (subst for_loop.simps) simp

lemma for_loop_step: "i \<le> hi \<Longrightarrow> for_loop i hi body s = for_loop (i + 1) hi body (body i s)"
  by (subst for_loop.simps) simp

lemma for_loop_preserves:
  assumes "\<And>i s. lo \<le> i \<Longrightarrow> i \<le> hi \<Longrightarrow> P s \<Longrightarrow> P (body i s)" and "P s"
  shows "P (for_loop lo hi body s)"
  using assms
proof (induction "nat (hi + 1 - lo)" arbitrary: lo s)
  case 0
  then show ?case by (simp add: for_loop_stop)
next
  case (Suc m)
  then have le: "lo \<le> hi" by linarith
  have "P (for_loop (lo + 1) hi body (body lo s))"
  proof (rule Suc.hyps(1))
    show "m = nat (hi + 1 - (lo + 1))" using Suc.hyps(2) by linarith
    show "P (body lo s)" using Suc.prems le by simp
    show "\<And>i s. lo + 1 \<le> i \<Longrightarrow> i \<le> hi \<Longrightarrow> P s \<Longrightarrow> P (body i s)"
      using Suc.prems(1) by simp
  qed
  then show ?case by (simp add: for_loop_step [OF le])
qed

lemma for_loop_invariant:
  assumes "I lo s"
    and "\<And>i s. lo \<le> i \<Longrightarrow> i \<le> hi \<Longrightarrow> I i s \<Longrightarrow> I (i + 1) (body i s)"
  shows "I (max lo (hi + 1)) (for_loop lo hi body s)"
  using assms
proof (induction "nat (hi + 1 - lo)" arbitrary: lo s)
  case 0
  then have "hi < lo" by linarith
  then have "max lo (hi + 1) = lo" by simp
  with \<open>hi < lo\<close> "0.prems"(1) show ?case by (simp add: for_loop_stop)
next
  case (Suc m)
  then have le: "lo \<le> hi" by linarith
  have "I (max (lo + 1) (hi + 1)) (for_loop (lo + 1) hi body (body lo s))"
  proof (rule Suc.hyps(1))
    show "m = nat (hi + 1 - (lo + 1))" using Suc.hyps(2) by linarith
    show "I (lo + 1) (body lo s)" using Suc.prems le by simp
    show "\<And>i s. lo + 1 \<le> i \<Longrightarrow> i \<le> hi \<Longrightarrow> I i s \<Longrightarrow> I (i + 1) (body i s)"
      using Suc.prems(2) by simp
  qed
  moreover have "max (lo + 1) (hi + 1) = max lo (hi + 1)" using le by simp
  ultimately show ?case by (simp add: for_loop_step [OF le])
qed

lemma for_loop_upd_at:
  assumes body: "\<And>i F. body i F = F(i + c := v i)"
  shows "for_loop lo hi body F0 x
     = (if lo \<le> x - c \<and> x - c \<le> hi then v (x - c) else F0 x)"
proof (induction "nat (hi + 1 - lo)" arbitrary: lo F0)
  case 0
  then have "hi < lo" by linarith
  then show ?case by (auto simp: for_loop_stop)
next
  case (Suc m)
  then have le: "lo \<le> hi" by linarith
  have m: "m = nat (hi + 1 - (lo + 1))" using Suc.hyps(2) by linarith
  have "for_loop lo hi body F0 x = for_loop (lo + 1) hi body (body lo F0) x"
    by (simp only: for_loop_step [OF le])
  also have "\<dots> = (if lo + 1 \<le> x - c \<and> x - c \<le> hi then v (x - c) else body lo F0 x)"
    by (rule Suc.hyps(1) [OF m])
  also have "\<dots> = (if lo \<le> x - c \<and> x - c \<le> hi then v (x - c) else F0 x)"
    using le by (auto simp: body)
  finally show ?case .
qed

subsection \<open>Facts about the cast between a cell and its components\<close>

lemma Real_ptr_Gas_of_Reals: "n < NVAR \<Longrightarrow> Real_ptr (Gas_of_Reals p) n = p n"
  unfolding NVAR_def Gas_of_Reals_def Real_ptr_def
  by (auto simp: nth_Cons' numeral_eq_Suc less_Suc_eq)

lemma Gas_of_Reals_scale:
  "Gas_of_Reals (\<lambda>n. c * Real_ptr g n) = \<lparr>d = c * d g, M1 = c * M1 g, M2 = c * M2 g, M3 = c * M3 g, E = c * E g\<rparr>"
  by (simp add: Gas_of_Reals_def Real_ptr_def numeral_eq_Suc)

subsection \<open>What the kernel stores\<close>

text \<open>
  The flux array after the kernel: for a positive \<open>eps\<close> the kernel has written the
  interfaces \<open>[il, iu+2]\<close>, otherwise the interfaces \<open>[il-1, iu+1]\<close>; the other cells
  of \<open>Flux\<close> are as before.
\<close>

lemma CompRemapFlux_2nd_at:
  "CompRemapFlux_2nd U eps il iu Flux x =
     (if eps > 0 then
        (if il \<le> x \<and> x \<le> iu + 2 then flux_pos_2nd U eps (x - 1) else Flux x)
      else
        (if il - 1 \<le> x \<and> x \<le> iu + 1 then flux_neg_2nd U eps x else Flux x))"
proof (cases "eps > 0")
  case True
  then have "\<And>i F. remap_step_2nd U eps i F = F(i + 1 := flux_pos_2nd U eps i)"
    by (simp add: remap_step_2nd_def)
  then show ?thesis using True
    by (simp add: CompRemapFlux_2nd_def for_loop_upd_at [where c = 1])
next
  case False
  then have "\<And>i F. remap_step_2nd U eps i F = F(i + 0 := flux_neg_2nd U eps i)"
    by (simp add: remap_step_2nd_def)
  then show ?thesis using False
    by (simp add: CompRemapFlux_2nd_def for_loop_upd_at [where c = 0])
qed

lemma Uhalf_loop_at:
  "for_loop lo hi (Uhalf_step U) Uh0 i
     = (if lo \<le> i \<and> i \<le> hi then Uhalf_val U i else Uh0 i)"
proof -
  have "\<And>i F. Uhalf_step U i F = F(i + 0 := Uhalf_val U i)"
    by (simp add: Uhalf_step_def)
  then show ?thesis by (simp add: for_loop_upd_at [where c = 0])
qed

lemma CompRemapFlux_3rd_at:
  "snd (CompRemapFlux_3rd U eps il iu (Uh0, Flux)) x =
     (let Uh = for_loop (il - 1) (iu + 2) (Uhalf_step U) Uh0 in
      if eps > 0 then
        (if il \<le> x \<and> x \<le> iu + 2 then flux_pos_3rd U Uh eps (x - 1) else Flux x)
      else
        (if il - 1 \<le> x \<and> x \<le> iu + 1 then flux_neg_3rd U Uh eps x else Flux x))"
proof (cases "eps > 0")
  case True
  then have "\<And>Uh i F. remap_step_3rd U Uh eps i F = F(i + 1 := flux_pos_3rd U Uh eps i)"
    by (simp add: remap_step_3rd_def)
  then show ?thesis using True
    by (simp add: CompRemapFlux_3rd_def Let_def for_loop_upd_at [where c = 1])
next
  case False
  then have "\<And>Uh i F. remap_step_3rd U Uh eps i F = F(i + 0 := flux_neg_3rd U Uh eps i)"
    by (simp add: remap_step_3rd_def)
  then show ?thesis using False
    by (simp add: CompRemapFlux_3rd_def Let_def for_loop_upd_at [where c = 0])
qed

subsection \<open>Zero shift\<close>

lemma flux_neg_2nd_zero: "flux_neg_2nd U 0 i = \<lparr>d = 0, M1 = 0, M2 = 0, M3 = 0, E = 0\<rparr>"
  by (simp add: flux_neg_2nd_def Gas_of_Reals_def)

lemma flux_neg_3rd_zero: "flux_neg_3rd U Uh 0 i = \<lparr>d = 0, M1 = 0, M2 = 0, M3 = 0, E = 0\<rparr>"
  by (simp add: flux_neg_3rd_def Gas_of_Reals_def)

text \<open>
  Claim C4: for every input pencil, \<^verbatim>\<open>CompRemapFlux\<close> called with \<open>eps = 0\<close> leaves a flux
  pencil whose entries over \<open>[il, iu+1]\<close> are zero in every component, in both
  reconstruction variants (whatever \<^verbatim>\<open>Uhalf\<close> and \<open>Flux\<close> held before).
\<close>

theorem CompRemapFlux_zero_shift:
  assumes "il \<le> x" and "x \<le> iu + 1"
  shows "snd (CompRemapFlux ord U 0 il iu (Uh0, Flux)) x
           = \<lparr>d = 0, M1 = 0, M2 = 0, M3 = 0, E = 0\<rparr>"
proof (cases ord)
  case SECOND_ORDER
  then show ?thesis using assms
    by (simp add: CompRemapFlux_def CompRemapFlux_2nd_at flux_neg_2nd_zero)
next
  case THIRD_ORDER
  then show ?thesis using assms
    by (simp add: CompRemapFlux_def CompRemapFlux_3rd_at flux_neg_3rd_zero)
qed

theorem CompRemapFlux_zero_shift_witness:
  "snd (CompRemapFlux SECOND_ORDER (\<lambda>i. \<lparr>d = real_of_int i, M1 = 2, M2 = 3, M3 = 4, E = 8\<rparr>) 0 0 3
          (\<lambda>i n. 1, \<lambda>i. \<lparr>d = 1, M1 = 1, M2 = 1, M3 = 1, E = 1\<rparr>)) 0
     = \<lparr>d = 0, M1 = 0, M2 = 0, M3 = 0, E = 0\<rparr>
   \<and> snd (CompRemapFlux THIRD_ORDER (\<lambda>i. \<lparr>d = real_of_int i, M1 = 2, M2 = 3, M3 = 4, E = 8\<rparr>) 0 0 3
          (\<lambda>i n. 1, \<lambda>i. \<lparr>d = 1, M1 = 1, M2 = 1, M3 = 1, E = 1\<rparr>)) 4
     = \<lparr>d = 0, M1 = 0, M2 = 0, M3 = 0, E = 0\<rparr>"
  using CompRemapFlux_zero_shift [of 0 0 3 SECOND_ORDER] CompRemapFlux_zero_shift [of 0 4 3 THIRD_ORDER]
  by simp

subsection \<open>Uniform pencils\<close>

lemma dUm_uniform:
  assumes "pU U (i - 1) n = a" "pU U i n = a"
  shows "dUm U i n = 0"
  using assms by (simp add: dUm_def dUl_def)

lemma Uhalf_val_uniform:
  assumes "pU U (i - 2) n = a" "pU U (i - 1) n = a" "pU U i n = a" "pU U (i + 1) n = a"
  shows "Uhalf_val U i n = a"
  using assms by (simp add: Uhalf_val_def Let_def)

lemma edges_uniform:
  assumes "Uh i n = a" "Uh (i + 1) n = a" "pU U i n = a"
  shows "edges U Uh i n = (a, a)"
  using assms by (simp add: edges_def edges_step4_def edges_step5_def Let_def)


lemma flux_pos_2nd_uniform:
  assumes "\<And>n. pU U (i - 1) n = Real_ptr v n" "\<And>n. pU U i n = Real_ptr v n"
  shows "flux_pos_2nd U eps i = \<lparr>d = eps * d v, M1 = eps * M1 v, M2 = eps * M2 v, M3 = eps * M3 v, E = eps * E v\<rparr>"
proof -
  have "\<And>n. dUm U i n = 0" using assms by (rule dUm_uniform)
  then show ?thesis
    by (simp add: flux_pos_2nd_def assms(2) Gas_of_Reals_scale)
qed

lemma flux_neg_2nd_uniform:
  assumes "\<And>n. pU U (i - 1) n = Real_ptr v n" "\<And>n. pU U i n = Real_ptr v n"
  shows "flux_neg_2nd U eps i = \<lparr>d = eps * d v, M1 = eps * M1 v, M2 = eps * M2 v, M3 = eps * M3 v, E = eps * E v\<rparr>"
proof -
  have "\<And>n. dUm U i n = 0" using assms by (rule dUm_uniform)
  then show ?thesis
    by (simp add: flux_neg_2nd_def assms(2) Gas_of_Reals_scale)
qed

lemma flux_pos_3rd_uniform:
  assumes "\<And>n. Uh i n = Real_ptr v n" "\<And>n. Uh (i + 1) n = Real_ptr v n"
    and "\<And>n. pU U i n = Real_ptr v n"
  shows "flux_pos_3rd U Uh eps i = \<lparr>d = eps * d v, M1 = eps * M1 v, M2 = eps * M2 v, M3 = eps * M3 v, E = eps * E v\<rparr>"
proof -
  have "\<And>n. edges U Uh i n = (Real_ptr v n, Real_ptr v n)"
    using assms by (rule edges_uniform)
  then show ?thesis
    by (simp add: flux_pos_3rd_def Urv_def Ulv_def dU_def U6_def assms(3) Gas_of_Reals_scale)
qed

lemma flux_neg_3rd_uniform:
  assumes "\<And>n. Uh i n = Real_ptr v n" "\<And>n. Uh (i + 1) n = Real_ptr v n"
    and "\<And>n. pU U i n = Real_ptr v n"
  shows "flux_neg_3rd U Uh eps i = \<lparr>d = eps * d v, M1 = eps * M1 v, M2 = eps * M2 v, M3 = eps * M3 v, E = eps * E v\<rparr>"
proof -
  have "\<And>n. edges U Uh i n = (Real_ptr v n, Real_ptr v n)"
    using assms by (rule edges_uniform)
  then show ?thesis
    by (simp add: flux_neg_3rd_def Urv_def Ulv_def dU_def U6_def assms(3) Gas_of_Reals_scale)
qed

lemma CompRemapFlux_2nd_uniform:
  assumes unif: "\<And>i. il - 2 \<le> i \<Longrightarrow> i \<le> iu + 2 \<Longrightarrow> U i = v"
    and x: "il \<le> x" "x \<le> iu + 1"
  shows "CompRemapFlux_2nd U eps il iu Flux x
           = \<lparr>d = eps * d v, M1 = eps * M1 v, M2 = eps * M2 v, M3 = eps * M3 v, E = eps * E v\<rparr>"
proof -
  have pu: "\<And>j n. il - 2 \<le> j \<Longrightarrow> j \<le> iu + 2 \<Longrightarrow> pU U j n = Real_ptr v n"
    by (simp add: pU_def unif)
  show ?thesis
  proof (cases "eps > 0")
    case True
    have "flux_pos_2nd U eps (x - 1) = \<lparr>d = eps * d v, M1 = eps * M1 v, M2 = eps * M2 v, M3 = eps * M3 v, E = eps * E v\<rparr>"
      by (rule flux_pos_2nd_uniform; rule pu) (use x in simp_all)
    then show ?thesis using True x by (simp add: CompRemapFlux_2nd_at)
  next
    case False
    have "flux_neg_2nd U eps x = \<lparr>d = eps * d v, M1 = eps * M1 v, M2 = eps * M2 v, M3 = eps * M3 v, E = eps * E v\<rparr>"
      by (rule flux_neg_2nd_uniform; rule pu) (use x in simp_all)
    then show ?thesis using False x by (simp add: CompRemapFlux_2nd_at)
  qed
qed

lemma CompRemapFlux_3rd_uniform:
  assumes unif: "\<And>i. il - 3 \<le> i \<Longrightarrow> i \<le> iu + 3 \<Longrightarrow> U i = v"
    and x: "il \<le> x" "x \<le> iu + 1"
  shows "snd (CompRemapFlux_3rd U eps il iu (Uh0, Flux)) x
           = \<lparr>d = eps * d v, M1 = eps * M1 v, M2 = eps * M2 v, M3 = eps * M3 v, E = eps * E v\<rparr>"
proof -
  define Uh where "Uh = for_loop (il - 1) (iu + 2) (Uhalf_step U) Uh0"
  have pu: "\<And>j n. il - 3 \<le> j \<Longrightarrow> j \<le> iu + 3 \<Longrightarrow> pU U j n = Real_ptr v n"
    by (simp add: pU_def unif)
  have uh: "Uh j n = Real_ptr v n" if "il - 1 \<le> j" "j \<le> iu + 2" for j n
  proof -
    have "Uh j n = Uhalf_val U j n" using that by (simp add: Uh_def Uhalf_loop_at)
    also have "\<dots> = Real_ptr v n"
      by (rule Uhalf_val_uniform; rule pu) (use that in simp_all)
    finally show ?thesis .
  qed
  show ?thesis
  proof (cases "eps > 0")
    case True
    have "flux_pos_3rd U Uh eps (x - 1) = \<lparr>d = eps * d v, M1 = eps * M1 v, M2 = eps * M2 v, M3 = eps * M3 v, E = eps * E v\<rparr>"
    proof (rule flux_pos_3rd_uniform)
      show "\<And>n. Uh (x - 1) n = Real_ptr v n" using x by (intro uh) simp_all
      show "\<And>n. Uh (x - 1 + 1) n = Real_ptr v n" using x by (intro uh) simp_all
      show "\<And>n. pU U (x - 1) n = Real_ptr v n" using x by (intro pu) simp_all
    qed
    then show ?thesis using True x by (simp add: CompRemapFlux_3rd_at Uh_def)
  next
    case False
    have "flux_neg_3rd U Uh eps x = \<lparr>d = eps * d v, M1 = eps * M1 v, M2 = eps * M2 v, M3 = eps * M3 v, E = eps * E v\<rparr>"
    proof (rule flux_neg_3rd_uniform)
      show "\<And>n. Uh x n = Real_ptr v n" using x by (intro uh) simp_all
      show "\<And>n. Uh (x + 1) n = Real_ptr v n" using x by (intro uh) simp_all
      show "\<And>n. pU U x n = Real_ptr v n" using x by (intro pu) simp_all
    qed
    then show ?thesis using False x by (simp add: CompRemapFlux_3rd_at Uh_def)
  qed
qed

text \<open>
  Claim C1: for a pencil that holds the same cell \<open>v\<close> over the halo the variant needs
  (\<open>[il-2, iu+2]\<close> for the second order, \<open>[il-3, iu+3]\<close> for the third), the kernel of
  either variant stores \<open>eps * v\<close>, component by component, at every interface \<open>x\<close> of
  \<open>[il, iu+1]\<close>. This holds for every \<open>eps\<close>, in particular for every \<open>eps\<close> in
  \<open>(-1, 1)\<close>.
\<close>

theorem CompRemapFlux_uniform:
  assumes "\<forall>i. il - halo ord \<le> i \<and> i \<le> iu + halo ord \<longrightarrow> U i = v"
    and "il \<le> x" and "x \<le> iu + 1"
  shows "snd (CompRemapFlux ord U eps il iu (Uh0, Flux)) x
           = \<lparr>d = eps * d v, M1 = eps * M1 v, M2 = eps * M2 v, M3 = eps * M3 v, E = eps * E v\<rparr>"
proof (cases ord)
  case SECOND_ORDER
  then have "\<And>i. il - 2 \<le> i \<Longrightarrow> i \<le> iu + 2 \<Longrightarrow> U i = v"
    using assms(1) by (simp add: halo_def)
  then show ?thesis using SECOND_ORDER assms(2,3)
    by (simp add: CompRemapFlux_def CompRemapFlux_2nd_uniform)
next
  case THIRD_ORDER
  then have "\<And>i. il - 3 \<le> i \<Longrightarrow> i \<le> iu + 3 \<Longrightarrow> U i = v"
    using assms(1) by (simp add: halo_def)
  then show ?thesis using THIRD_ORDER assms(2,3)
    by (simp add: CompRemapFlux_def CompRemapFlux_3rd_uniform)
qed

theorem CompRemapFlux_uniform_witness:
  "snd (CompRemapFlux SECOND_ORDER (\<lambda>i. \<lparr>d = 1, M1 = 2, M2 = 3, M3 = 4, E = 8\<rparr>) (1 / 4) 0 3
          (\<lambda>i n. 0, \<lambda>i. \<lparr>d = 0, M1 = 0, M2 = 0, M3 = 0, E = 0\<rparr>)) 2
     = \<lparr>d = 1 / 4, M1 = 1 / 2, M2 = 3 / 4, M3 = 1, E = 2\<rparr>
   \<and> snd (CompRemapFlux THIRD_ORDER (\<lambda>i. \<lparr>d = 1, M1 = 2, M2 = 3, M3 = 4, E = 8\<rparr>) (- 1 / 4) 0 3
          (\<lambda>i n. 0, \<lambda>i. \<lparr>d = 0, M1 = 0, M2 = 0, M3 = 0, E = 0\<rparr>)) 4
     = \<lparr>d = - 1 / 4, M1 = - 1 / 2, M2 = - 3 / 4, M3 = - 1, E = - 2\<rparr>"
  using CompRemapFlux_uniform [of 0 SECOND_ORDER 3 "\<lambda>i. \<lparr>d = 1, M1 = 2, M2 = 3, M3 = 4, E = 8\<rparr>"
          "\<lparr>d = 1, M1 = 2, M2 = 3, M3 = 4, E = 8\<rparr>" 2 "1 / 4"
          "\<lambda>i n. 0" "\<lambda>i. \<lparr>d = 0, M1 = 0, M2 = 0, M3 = 0, E = 0\<rparr>"]
        CompRemapFlux_uniform [of 0 THIRD_ORDER 3 "\<lambda>i. \<lparr>d = 1, M1 = 2, M2 = 3, M3 = 4, E = 8\<rparr>"
          "\<lparr>d = 1, M1 = 2, M2 = 3, M3 = 4, E = 8\<rparr>" 4 "- 1 / 4"
          "\<lambda>i n. 0" "\<lambda>i. \<lparr>d = 0, M1 = 0, M2 = 0, M3 = 0, E = 0\<rparr>"]
  by simp

subsection \<open>The limited slope of the second-order kernel\<close>

lemma MIN2_eq_min: "MIN2 a b = min a b"
  by (simp add: MIN2_def min_def)

lemma dUm_nondecreasing:
  assumes "0 \<le> dUl U i n" and "0 \<le> dUr U i n"
  shows "0 \<le> dUm U i n \<and> dUm U i n / 2 \<le> dUl U i n \<and> dUm U i n / 2 \<le> dUr U i n"
proof (cases "dUl U i n * dUr U i n > 0")
  case False
  then show ?thesis using assms by (simp add: dUm_def)
next
  case True
  then have pos: "0 < dUl U i n" "0 < dUr U i n"
    using assms by (auto simp: zero_less_mult_iff)
  have c: "dUc U i n = dUl U i n + dUr U i n"
    by (simp add: dUc_def dUl_def dUr_def)
  have m: "dUm U i n = min ((dUl U i n + dUr U i n) / 2) (2 * min (dUl U i n) (dUr U i n))"
    using True pos by (simp add: dUm_def Let_def c SIGN_def MIN2_eq_min)
  have "0 \<le> dUm U i n" using pos unfolding m by simp
  moreover have "dUm U i n / 2 \<le> dUl U i n" using pos unfolding m by linarith
  moreover have "dUm U i n / 2 \<le> dUr U i n" using pos unfolding m by linarith
  ultimately show ?thesis by simp
qed

lemma dUm_nonincreasing:
  assumes "dUl U i n \<le> 0" and "dUr U i n \<le> 0"
  shows "dUm U i n \<le> 0 \<and> dUl U i n \<le> dUm U i n / 2 \<and> dUr U i n \<le> dUm U i n / 2"
proof (cases "dUl U i n * dUr U i n > 0")
  case False
  then show ?thesis using assms by (simp add: dUm_def)
next
  case True
  then have neg: "dUl U i n < 0" "dUr U i n < 0"
    using assms by (auto simp: zero_less_mult_iff)
  have c: "dUc U i n = dUl U i n + dUr U i n"
    by (simp add: dUc_def dUl_def dUr_def)
  have m: "dUm U i n = - min ((- dUl U i n - dUr U i n) / 2) (2 * min (- dUl U i n) (- dUr U i n))"
    using True neg by (simp add: dUm_def Let_def c SIGN_def MIN2_eq_min)
  have "dUm U i n \<le> 0" using neg unfolding m by simp
  moreover have "dUl U i n \<le> dUm U i n / 2" using neg unfolding m by linarith
  moreover have "dUr U i n \<le> dUm U i n / 2" using neg unfolding m by linarith
  ultimately show ?thesis by simp
qed

text \<open>
  Claim C8: where the pencil is monotone over the stencil of cell \<open>i\<close> (not decreasing,
  or not increasing, from \<open>i-1\<close> over \<open>i\<close> to \<open>i+1\<close>), the limited slope \<open>dUm\<close> of the
  second-order kernel gives edge values \<open>U[i] - dUm/2\<close> and \<open>U[i] + dUm/2\<close> that both lie
  between the neighbouring cell averages \<open>U[i-1]\<close> and \<open>U[i+1]\<close>, in every component
  \<open>n\<close>: the linear reconstruction has no new local extremum.
\<close>

theorem dUm_monotone_edges:
  assumes "(pU U (i - 1) n \<le> pU U i n \<and> pU U i n \<le> pU U (i + 1) n)
         \<or> (pU U (i + 1) n \<le> pU U i n \<and> pU U i n \<le> pU U (i - 1) n)"
  shows "min (pU U (i - 1) n) (pU U (i + 1) n) \<le> pU U i n - dUm U i n / 2
       \<and> pU U i n - dUm U i n / 2 \<le> max (pU U (i - 1) n) (pU U (i + 1) n)
       \<and> min (pU U (i - 1) n) (pU U (i + 1) n) \<le> pU U i n + dUm U i n / 2
       \<and> pU U i n + dUm U i n / 2 \<le> max (pU U (i - 1) n) (pU U (i + 1) n)"
  using assms
proof
  assume up: "pU U (i - 1) n \<le> pU U i n \<and> pU U i n \<le> pU U (i + 1) n"
  then have "0 \<le> dUl U i n" and "0 \<le> dUr U i n"
    by (simp_all add: dUl_def dUr_def)
  then have "0 \<le> dUm U i n \<and> dUm U i n / 2 \<le> dUl U i n \<and> dUm U i n / 2 \<le> dUr U i n"
    by (rule dUm_nondecreasing)
  then have "0 \<le> dUm U i n" "dUm U i n / 2 \<le> pU U i n - pU U (i - 1) n"
    "dUm U i n / 2 \<le> pU U (i + 1) n - pU U i n"
    by (simp_all add: dUl_def dUr_def)
  with up show ?thesis by (simp add: min_def max_def)
next
  assume down: "pU U (i + 1) n \<le> pU U i n \<and> pU U i n \<le> pU U (i - 1) n"
  then have "dUl U i n \<le> 0" and "dUr U i n \<le> 0"
    by (simp_all add: dUl_def dUr_def)
  then have "dUm U i n \<le> 0 \<and> dUl U i n \<le> dUm U i n / 2 \<and> dUr U i n \<le> dUm U i n / 2"
    by (rule dUm_nonincreasing)
  then have "dUm U i n \<le> 0" "pU U i n - pU U (i - 1) n \<le> dUm U i n / 2"
    "pU U (i + 1) n - pU U i n \<le> dUm U i n / 2"
    by (simp_all add: dUl_def dUr_def)
  with down show ?thesis by (simp add: min_def max_def)
qed

theorem dUm_monotone_edges_witness:
  "pU (\<lambda>i. \<lparr>d = (if i \<le> 0 then 0 else if i = 1 then 1 else 5), M1 = 0, M2 = 0, M3 = 0, E = 0\<rparr>) 0 0
     \<le> pU (\<lambda>i. \<lparr>d = (if i \<le> 0 then 0 else if i = 1 then 1 else 5), M1 = 0, M2 = 0, M3 = 0, E = 0\<rparr>) 1 0
   \<and> dUm (\<lambda>i. \<lparr>d = (if i \<le> 0 then 0 else if i = 1 then 1 else 5), M1 = 0, M2 = 0, M3 = 0, E = 0\<rparr>) 1 0 = 2
   \<and> 0 \<le> pU (\<lambda>i. \<lparr>d = (if i \<le> 0 then 0 else if i = 1 then 1 else 5), M1 = 0, M2 = 0, M3 = 0, E = 0\<rparr>) 1 0
          - dUm (\<lambda>i. \<lparr>d = (if i \<le> 0 then 0 else if i = 1 then 1 else 5), M1 = 0, M2 = 0, M3 = 0, E = 0\<rparr>) 1 0 / 2
   \<and> pU (\<lambda>i. \<lparr>d = (if i \<le> 0 then 0 else if i = 1 then 1 else 5), M1 = 0, M2 = 0, M3 = 0, E = 0\<rparr>) 1 0
          + dUm (\<lambda>i. \<lparr>d = (if i \<le> 0 then 0 else if i = 1 then 1 else 5), M1 = 0, M2 = 0, M3 = 0, E = 0\<rparr>) 1 0 / 2 \<le> 5"
  using dUm_monotone_edges [of "\<lambda>i. \<lparr>d = (if i \<le> 0 then 0 else if i = 1 then 1 else 5), M1 = 0, M2 = 0, M3 = 0, E = 0\<rparr>" 1 0]
  by (simp add: pU_def Real_ptr_def dUm_def dUl_def dUr_def dUc_def MIN2_def SIGN_def Let_def)

subsection \<open>The frame boost at gather time\<close>

lemma gather_ix1_fields:
  "gather_ix1 Omega Lx src r =
     \<lparr>d = d src, M1 = M1 src, M2 = M2 src + 1.5 * Omega * Lx * d src, M3 = M3 src,
      E = E src + (0.5 / d src) * (SQR (M2 src + 1.5 * Omega * Lx * d src) - SQR (M2 src))\<rparr>"
  by (simp add: gather_ix1_def Let_def)

lemma gather_ox1_fields:
  "gather_ox1 Omega Lx src r =
     \<lparr>d = d src, M1 = M1 src, M2 = M2 src - 1.5 * Omega * Lx * d src, M3 = M3 src,
      E = E src + (0.5 / d src) * (SQR (M2 src - 1.5 * Omega * Lx * d src) - SQR (M2 src))\<rparr>"
  by (simp add: gather_ox1_def Let_def)

subsection \<open>What the gather loops store\<close>

lemma pG_set_RemapGas: "pG (set_RemapGas i j v s) = pG s"
  by (simp add: set_RemapGas_def)

lemma RemapGas_set_RemapGas:
  "RemapGas (set_RemapGas i j v s) a b = (if a = i \<and> b = j then v else RemapGas s a b)"
  by (simp add: set_RemapGas_def)

lemma gather_row:
  fixes body :: "int \<Rightarrow> memory \<Rightarrow> memory" and val :: "Grid \<Rightarrow> int \<Rightarrow> Gas"
  assumes body: "\<And>i t. body i t = set_RemapGas i j (val (pG t) i) t"
  shows "pG (for_loop 0 (n - 1) body s) = pG s
       \<and> (\<forall>a b. RemapGas (for_loop 0 (n - 1) body s) a b
             = (if b = j \<and> 0 \<le> a \<and> a \<le> n - 1 then val (pG s) a else RemapGas s a b))"
proof -
  define I where "I = (\<lambda>i (t::memory). pG t = pG s
       \<and> (\<forall>a b. RemapGas t a b = (if b = j \<and> 0 \<le> a \<and> a < i then val (pG s) a else RemapGas s a b)))"
  have "I (max 0 (n - 1 + 1)) (for_loop 0 (n - 1) body s)"
  proof (rule for_loop_invariant)
    show "I 0 s" by (simp add: I_def)
    show "\<And>i t. 0 \<le> i \<Longrightarrow> i \<le> n - 1 \<Longrightarrow> I i t \<Longrightarrow> I (i + 1) (body i t)"
      by (auto simp: I_def body pG_set_RemapGas RemapGas_set_RemapGas)
  qed
  then show ?thesis by (auto simp: I_def max_def)
qed

lemma gather_rows:
  fixes body :: "int \<Rightarrow> memory \<Rightarrow> memory" and val :: "Grid \<Rightarrow> int \<Rightarrow> int \<Rightarrow> Gas"
  assumes body: "\<And>j t. pG (body j t) = pG t
       \<and> (\<forall>a b. RemapGas (body j t) a b
             = (if b = j \<and> 0 \<le> a \<and> a \<le> n - 1 then val (pG t) j a else RemapGas t a b))"
  shows "pG (for_loop js je body s) = pG s
       \<and> (\<forall>a b. RemapGas (for_loop js je body s) a b
             = (if js \<le> b \<and> b \<le> je \<and> 0 \<le> a \<and> a \<le> n - 1 then val (pG s) b a else RemapGas s a b))"
proof -
  define I where "I = (\<lambda>j (t::memory). pG t = pG s
       \<and> (\<forall>a b. RemapGas t a b = (if js \<le> b \<and> b < j \<and> 0 \<le> a \<and> a \<le> n - 1 then val (pG s) b a else RemapGas s a b)))"
  have "I (max js (je + 1)) (for_loop js je body s)"
  proof (rule for_loop_invariant)
    show "I js s" by (simp add: I_def)
    fix j t
    assume j: "js \<le> j" "j \<le> je" and t: "I j t"
    show "I (j + 1) (body j t)" using j t body [of j t] by (auto simp: I_def)
  qed
  then show ?thesis by (auto simp: I_def max_def)
qed

text \<open>
  After the gather loops of slice \<open>k\<close>, the cell \<^verbatim>\<open>RemapGas[i][j]\<close> of every row \<open>j\<close> of
  \<open>[js, je]\<close> and every ghost layer \<open>i\<close> holds the boosted copy of the grid cell at the
  wrapped row \<open>j_remap\<close>; the cell \<open>r\<close> is arbitrary, every field being overwritten.
\<close>

lemma gather_loop_ix1_RemapGas:
  assumes "js \<le> j" and "j \<le> je" and "0 \<le> i" and "i \<le> nghost - 1"
  shows "RemapGas (gather_loop_ix1 Omega Lx nghost ie js je joff k s) i j
     = gather_ix1 Omega Lx
         (G_U (pG s) k (j_remap_ix1 js (G_Nx2 (pG s)) joff j) (ie - nghost + 1 + i)) r"
proof -
  define val where "val = (\<lambda>(G::Grid) j i. gather_ix1 Omega Lx
         (G_U G k (j_remap_ix1 js (G_Nx2 G) joff j) (ie - nghost + 1 + i)) r)"
  define body where "body = (\<lambda>j (s::memory).
       let j_remap = j_remap_ix1 js (G_Nx2 (pG s)) joff j
       in for_loop 0 (nghost - 1) (\<lambda>i s.
            set_RemapGas i j
              (gather_ix1 Omega Lx (G_U (pG s) k j_remap (ie - nghost + 1 + i)) (RemapGas s i j)) s) s)"
  have row: "pG (body j t) = pG t
       \<and> (\<forall>a b. RemapGas (body j t) a b
             = (if b = j \<and> 0 \<le> a \<and> a \<le> nghost - 1 then val (pG t) j a else RemapGas t a b))" for j t
  proof -
    have "pG (body j t) = pG t
       \<and> (\<forall>a b. RemapGas (body j t) a b
             = (if b = j \<and> 0 \<le> a \<and> a \<le> nghost - 1
                then (\<lambda>(G::Grid) i. gather_ix1 Omega Lx
                       (G_U G k (j_remap_ix1 js (G_Nx2 (pG t)) joff j) (ie - nghost + 1 + i)) r) (pG t) a
                else RemapGas t a b))"
      unfolding body_def Let_def
      by (rule gather_row) (simp add: gather_ix1_fields)
    then show ?thesis by (simp add: val_def)
  qed
  have "RemapGas (for_loop js je body s) i j
          = (if js \<le> j \<and> j \<le> je \<and> 0 \<le> i \<and> i \<le> nghost - 1 then val (pG s) j i else RemapGas s i j)"
    using gather_rows [of body nghost val js je s, OF row] by simp
  then show ?thesis using assms by (simp add: gather_loop_ix1_def body_def val_def)
qed

lemma gather_loop_ox1_RemapGas:
  assumes "js \<le> j" and "j \<le> je" and "0 \<le> i" and "i \<le> nghost - 1"
  shows "RemapGas (gather_loop_ox1 Omega Lx nghost is js je joff k s) i j
     = gather_ox1 Omega Lx
         (G_U (pG s) k (j_remap_ox1 je (G_Nx2 (pG s)) joff j) (is + i)) r"
proof -
  define val where "val = (\<lambda>(G::Grid) j i. gather_ox1 Omega Lx
         (G_U G k (j_remap_ox1 je (G_Nx2 G) joff j) (is + i)) r)"
  define body where "body = (\<lambda>j (s::memory).
       let j_remap = j_remap_ox1 je (G_Nx2 (pG s)) joff j
       in for_loop 0 (nghost - 1) (\<lambda>i s.
            set_RemapGas i j
              (gather_ox1 Omega Lx (G_U (pG s) k j_remap (is + i)) (RemapGas s i j)) s) s)"
  have row: "pG (body j t) = pG t
       \<and> (\<forall>a b. RemapGas (body j t) a b
             = (if b = j \<and> 0 \<le> a \<and> a \<le> nghost - 1 then val (pG t) j a else RemapGas t a b))" for j t
  proof -
    have "pG (body j t) = pG t
       \<and> (\<forall>a b. RemapGas (body j t) a b
             = (if b = j \<and> 0 \<le> a \<and> a \<le> nghost - 1
                then (\<lambda>(G::Grid) i. gather_ox1 Omega Lx
                       (G_U G k (j_remap_ox1 je (G_Nx2 (pG t)) joff j) (is + i)) r) (pG t) a
                else RemapGas t a b))"
      unfolding body_def Let_def
      by (rule gather_row) (simp add: gather_ox1_fields)
    then show ?thesis by (simp add: val_def)
  qed
  have "RemapGas (for_loop js je body s) i j
          = (if js \<le> j \<and> j \<le> je \<and> 0 \<le> i \<and> i \<le> nghost - 1 then val (pG s) j i else RemapGas s i j)"
    using gather_rows [of body nghost val js je s, OF row] by simp
  then show ?thesis using assms by (simp add: gather_loop_ox1_def body_def val_def)
qed

subsection \<open>The frame boost: claims\<close>

text \<open>
  Claim C2: the momentum boost added to \<open>M2\<close> when a cell is gathered for the inbound
  face is \<open>+1.5 * Omega * Lx * d\<close>, the one for the outbound face is
  \<open>-1.5 * Omega * Lx * d\<close>; for two gathered cells of the same density the two boosts are
  exact negatives of each other. (Neither depends on the offsets computed at entry.)
\<close>

theorem boost_mirror:
  assumes "d a = d b"
  shows "M2 (gather_ix1 Omega Lx a r) - M2 a = 1.5 * Omega * Lx * d a
       \<and> M2 (gather_ox1 Omega Lx b r') - M2 b = - (1.5 * Omega * Lx * d b)
       \<and> M2 (gather_ix1 Omega Lx a r) - M2 a = - (M2 (gather_ox1 Omega Lx b r') - M2 b)"
  using assms by (simp add: gather_ix1_fields gather_ox1_fields)

theorem boost_mirror_witness:
  "M2 (gather_ix1 2 3 \<lparr>d = 4, M1 = 1, M2 = 5, M3 = 0, E = 9\<rparr> \<lparr>d = 0, M1 = 0, M2 = 0, M3 = 0, E = 0\<rparr>) - 5 = 36
   \<and> M2 (gather_ox1 2 3 \<lparr>d = 4, M1 = 7, M2 = 1, M3 = 2, E = 6\<rparr> \<lparr>d = 0, M1 = 0, M2 = 0, M3 = 0, E = 0\<rparr>) - 1 = - 36"
  using boost_mirror [of "\<lparr>d = 4, M1 = 1, M2 = 5, M3 = 0, E = 9\<rparr>" "\<lparr>d = 4, M1 = 7, M2 = 1, M3 = 2, E = 6\<rparr>" 2 3
      "\<lparr>d = 0, M1 = 0, M2 = 0, M3 = 0, E = 0\<rparr>" "\<lparr>d = 0, M1 = 0, M2 = 0, M3 = 0, E = 0\<rparr>"]
  by simp

text \<open>
  Claim C3: for a gathered cell of nonzero density, the energy correction
  \<open>E += (0.5/d) * (new M2^2 - old M2^2)\<close> applied with the momentum boost leaves the
  internal energy \<open>E - (M1^2 + M2^2 + M3^2) / (2 d)\<close> unchanged, on the inbound face and on
  the outbound face.
\<close>

theorem boost_internal_energy:
  assumes "d src \<noteq> 0"
  shows "internal_energy (gather_ix1 Omega Lx src r) = internal_energy src
       \<and> internal_energy (gather_ox1 Omega Lx src r) = internal_energy src"
  using assms
  by (simp add: internal_energy_def gather_ix1_fields gather_ox1_fields SQR_def field_simps)

theorem boost_internal_energy_witness:
  "internal_energy (gather_ix1 2 3 \<lparr>d = 4, M1 = 1, M2 = 5, M3 = 0, E = 9\<rparr> \<lparr>d = 0, M1 = 0, M2 = 0, M3 = 0, E = 0\<rparr>) = 23 / 4
   \<and> internal_energy (gather_ox1 2 3 \<lparr>d = 4, M1 = 1, M2 = 5, M3 = 0, E = 9\<rparr> \<lparr>d = 0, M1 = 0, M2 = 0, M3 = 0, E = 0\<rparr>) = 23 / 4"
  using boost_internal_energy [of "\<lparr>d = 4, M1 = 1, M2 = 5, M3 = 0, E = 9\<rparr>" 2 3 "\<lparr>d = 0, M1 = 0, M2 = 0, M3 = 0, E = 0\<rparr>"]
  by (simp add: internal_energy_def SQR_def)

subsection \<open>The periodic wrap of the source row\<close>

text \<open>
  Claim C10: on a grid whose orbital extent is \<open>Nx2 = je - js + 1\<close>, for an integer offset
  in \<open>[0, Nx2]\<close> the single conditional wrap of either gather loop puts the source row
  \<open>j_remap\<close> into \<open>[js, je]\<close> for every \<open>j\<close> of \<open>[js, je]\<close>, so the gather loops read
  \<^verbatim>\<open>pG->U\<close> only at rows of the grid.
\<close>

theorem j_remap_in_range:
  assumes "Nx2 = je - js + 1" and "0 \<le> joff" and "joff \<le> Nx2" and "js \<le> j" and "j \<le> je"
  shows "js \<le> j_remap_ix1 js Nx2 joff j \<and> j_remap_ix1 js Nx2 joff j \<le> je
       \<and> js \<le> j_remap_ox1 je Nx2 joff j \<and> j_remap_ox1 je Nx2 joff j \<le> je"
  using assms by (simp add: j_remap_ix1_def j_remap_ox1_def Let_def)

theorem j_remap_in_range_witness:
  "j_remap_ix1 4 8 8 4 = 4 \<and> j_remap_ix1 4 8 3 5 = 10 \<and> j_remap_ox1 11 8 8 11 = 11
   \<and> j_remap_ox1 11 8 3 10 = 5
   \<and> (4::int) \<le> j_remap_ix1 4 8 3 5 \<and> j_remap_ix1 4 8 3 5 \<le> 11
   \<and> 4 \<le> j_remap_ox1 11 8 3 5 \<and> j_remap_ox1 11 8 3 5 \<le> 11"
  using j_remap_in_range [of 8 11 4 3 5]
  by (simp add: j_remap_ix1_def j_remap_ox1_def Let_def)

subsection \<open>The exchange writes ghost columns only\<close>

lemma G_U_set_U:
  "G_U (pG (set_U k j i v s)) k' j' i'
     = (if k' = k \<and> j' = j \<and> i' = i then v else G_U (pG s) k' j' i')"
  by (simp add: set_U_def)

lemma pG_call_CompRemapFlux: "pG (call_CompRemapFlux ord i eps il iu s) = pG s"
  by (simp add: call_CompRemapFlux_def split: prod.splits)

lemma pG_gather_loop_ix1: "pG (gather_loop_ix1 Omega Lx nghost ie js je joff k s) = pG s"
  unfolding gather_loop_ix1_def Let_def
  apply (rule for_loop_preserves [where P = "\<lambda>s'. pG s' = pG s"])
   apply (rule for_loop_preserves [where P = "\<lambda>s'. pG s' = pG s"])
    apply (simp add: pG_set_RemapGas)
   apply assumption
  apply simp
  done

lemma pG_gather_loop_ox1: "pG (gather_loop_ox1 Omega Lx nghost is js je joff k s) = pG s"
  unfolding gather_loop_ox1_def Let_def
  apply (rule for_loop_preserves [where P = "\<lambda>s'. pG s' = pG s"])
   apply (rule for_loop_preserves [where P = "\<lambda>s'. pG s' = pG s"])
    apply (simp add: pG_set_RemapGas)
   apply assumption
  apply simp
  done

lemma pG_periodic_loop: "pG (periodic_loop nghost js je s) = pG s"
  unfolding periodic_loop_def Let_def
  apply (rule for_loop_preserves [where P = "\<lambda>s'. pG s' = pG s"])
   apply (rule for_loop_preserves [where P = "\<lambda>s'. pG s' = pG s"])
    apply (simp add: pG_set_RemapGas)
   apply assumption
  apply simp
  done

lemma same_outside_pG: "pG s'' = pG s' \<Longrightarrow> same_outside W s s' \<Longrightarrow> same_outside W s s''"
  by (simp add: same_outside_def)

lemma same_outside_refl: "same_outside W s s"
  by (simp add: same_outside_def)

lemma same_outside_set_U: "W i \<Longrightarrow> same_outside W s s' \<Longrightarrow> same_outside W s (set_U k j i v s')"
  by (auto simp: same_outside_def G_U_set_U)

lemma same_outside_remap_loop:
  assumes W: "\<And>i. 0 \<le> i \<Longrightarrow> i \<le> nghost - 1 \<Longrightarrow> W (i0 + i)"
    and s': "same_outside W s s'"
  shows "same_outside W s (remap_loop ord nghost i0 js je eps k s')"
  unfolding remap_loop_def Let_def
  apply (rule for_loop_preserves [where P = "same_outside W s"])
   apply (rule for_loop_preserves [where P = "same_outside W s"])
    apply (simp add: same_outside_set_U W)
   apply (erule same_outside_pG [OF pG_call_CompRemapFlux])
  apply (rule s')
  done

lemma same_outside_slice_ix1:
  assumes W: "\<And>i. 0 \<le> i \<Longrightarrow> i \<le> nghost - 1 \<Longrightarrow> W (i0 + i)"
    and t: "same_outside W s t"
  shows "same_outside W s
           (remap_loop ord nghost i0 js je eps k
             (periodic_loop nghost js je (gather_loop_ix1 Omega Lx nghost ie js je joff k t)))"
  by (intro same_outside_remap_loop W same_outside_pG [OF pG_periodic_loop]
      same_outside_pG [OF pG_gather_loop_ix1] t)

lemma same_outside_slice_ox1:
  assumes W: "\<And>i. 0 \<le> i \<Longrightarrow> i \<le> nghost - 1 \<Longrightarrow> W (i0 + i)"
    and t: "same_outside W s t"
  shows "same_outside W s
           (remap_loop ord nghost i0 js je eps k
             (periodic_loop nghost js je (gather_loop_ox1 Omega Lx nghost is js je joff k t)))"
  by (intro same_outside_remap_loop W same_outside_pG [OF pG_periodic_loop]
      same_outside_pG [OF pG_gather_loop_ox1] t)

lemma same_outside_shear:
  assumes Win: "\<And>i. 0 \<le> i \<Longrightarrow> i \<le> nghost - 1 \<Longrightarrow> W (G_is (pG s) - nghost + i)"
    and Wout: "\<And>i. 0 \<le> i \<Longrightarrow> i \<le> nghost - 1 \<Longrightarrow> W (G_ie (pG s) + 1 + i)"
  shows "same_outside W s (shear_ix1_ox1 ord Omega Lx Ly nghost s var_flag)"
proof (cases "var_flag = 1")
  case True
  then show ?thesis by (simp add: shear_ix1_ox1_def same_outside_refl)
next
  case False
  show ?thesis
    unfolding shear_ix1_ox1_def Let_def if_not_P [OF False]
    apply (rule for_loop_preserves [where P = "same_outside W s"])
     apply (erule same_outside_slice_ox1 [rotated])
     apply (erule (1) Wout)
    apply (rule for_loop_preserves [where P = "same_outside W s"])
     apply (erule same_outside_slice_ix1 [rotated])
     apply (erule (1) Win)
    apply (rule same_outside_refl)
    done
qed

text \<open>
  Claim C7: for every grid, every ghost depth and every \<open>var_flag\<close>, \<^verbatim>\<open>shear_ix1_ox1\<close>
  changes the array \<^verbatim>\<open>pG->U\<close> only at columns \<open>i\<close> of the inbound ghost zone
  \<open>[is-nghost, is-1]\<close> or of the outbound ghost zone \<open>[ie+1, ie+nghost]\<close>; in particular
  every interior cell (\<open>is \<le> i \<le> ie\<close>) holds after the call the value it held before.
\<close>

theorem shear_ix1_ox1_frame:
  "(\<not> (G_is (pG s) - nghost \<le> i \<and> i \<le> G_is (pG s) - 1)
      \<and> \<not> (G_ie (pG s) + 1 \<le> i \<and> i \<le> G_ie (pG s) + nghost)
    \<longrightarrow> G_U (pG (shear_ix1_ox1 ord Omega Lx Ly nghost s var_flag)) k j i = G_U (pG s) k j i)
   \<and> (G_is (pG s) \<le> i \<and> i \<le> G_ie (pG s)
    \<longrightarrow> G_U (pG (shear_ix1_ox1 ord Omega Lx Ly nghost s var_flag)) k j i = G_U (pG s) k j i)"
proof -
  define W where "W = (\<lambda>i. (G_is (pG s) - nghost \<le> i \<and> i \<le> G_is (pG s) - 1)
                         \<or> (G_ie (pG s) + 1 \<le> i \<and> i \<le> G_ie (pG s) + nghost))"
  have "same_outside W s (shear_ix1_ox1 ord Omega Lx Ly nghost s var_flag)"
    by (rule same_outside_shear) (simp_all add: W_def)
  then have "\<not> W i \<Longrightarrow> G_U (pG (shear_ix1_ox1 ord Omega Lx Ly nghost s var_flag)) k j i = G_U (pG s) k j i"
    by (simp add: same_outside_def)
  moreover have "G_is (pG s) \<le> i \<and> i \<le> G_ie (pG s) \<Longrightarrow> \<not> W i"
    by (auto simp: W_def)
  ultimately show ?thesis by (auto simp: W_def)
qed

theorem shear_ix1_ox1_frame_witness:
  "G_U (pG (shear_ix1_ox1 SECOND_ORDER 1 1 1 2
      \<lparr>pG = \<lparr>G_is = 2, G_ie = 5, G_js = 2, G_je = 5, G_ks = 0, G_ke = 0, G_Nx2 = 4,
              G_dx2 = 1 / 4, G_time = 1 / 8,
              G_U = (\<lambda>k j i. \<lparr>d = 1, M1 = real_of_int i, M2 = real_of_int j, M3 = 0, E = 3\<rparr>)\<rparr>,
        RemapGas = (\<lambda>i j. \<lparr>d = 0, M1 = 0, M2 = 0, M3 = 0, E = 0\<rparr>),
        Flx = (\<lambda>j. \<lparr>d = 0, M1 = 0, M2 = 0, M3 = 0, E = 0\<rparr>),
        Uhalf = (\<lambda>i n. 0)\<rparr> 0)) 0 3 5
     = \<lparr>d = 1, M1 = 5, M2 = 3, M3 = 0, E = 3\<rparr>
   \<and> G_U (pG (shear_ix1_ox1 SECOND_ORDER 1 1 1 2
      \<lparr>pG = \<lparr>G_is = 2, G_ie = 5, G_js = 2, G_je = 5, G_ks = 0, G_ke = 0, G_Nx2 = 4,
              G_dx2 = 1 / 4, G_time = 1 / 8,
              G_U = (\<lambda>k j i. \<lparr>d = 1, M1 = real_of_int i, M2 = real_of_int j, M3 = 0, E = 3\<rparr>)\<rparr>,
        RemapGas = (\<lambda>i j. \<lparr>d = 0, M1 = 0, M2 = 0, M3 = 0, E = 0\<rparr>),
        Flx = (\<lambda>j. \<lparr>d = 0, M1 = 0, M2 = 0, M3 = 0, E = 0\<rparr>),
        Uhalf = (\<lambda>i n. 0)\<rparr> 0)) 0 3 8
     = \<lparr>d = 1, M1 = 8, M2 = 3, M3 = 0, E = 3\<rparr>"
  using shear_ix1_ox1_frame [of "\<lparr>pG = \<lparr>G_is = 2, G_ie = 5, G_js = 2, G_je = 5, G_ks = 0, G_ke = 0, G_Nx2 = 4,
              G_dx2 = 1 / 4, G_time = 1 / 8,
              G_U = (\<lambda>k j i. \<lparr>d = 1, M1 = real_of_int i, M2 = real_of_int j, M3 = 0, E = 3\<rparr>)\<rparr>,
        RemapGas = (\<lambda>i j. \<lparr>d = 0, M1 = 0, M2 = 0, M3 = 0, E = 0\<rparr>),
        Flx = (\<lambda>j. \<lparr>d = 0, M1 = 0, M2 = 0, M3 = 0, E = 0\<rparr>),
        Uhalf = (\<lambda>i n. 0)\<rparr>" 2 5 SECOND_ORDER 1 1 1 0 0 3]
    shear_ix1_ox1_frame [of "\<lparr>pG = \<lparr>G_is = 2, G_ie = 5, G_js = 2, G_je = 5, G_ks = 0, G_ke = 0, G_Nx2 = 4,
              G_dx2 = 1 / 4, G_time = 1 / 8,
              G_U = (\<lambda>k j i. \<lparr>d = 1, M1 = real_of_int i, M2 = real_of_int j, M3 = 0, E = 3\<rparr>)\<rparr>,
        RemapGas = (\<lambda>i j. \<lparr>d = 0, M1 = 0, M2 = 0, M3 = 0, E = 0\<rparr>),
        Flx = (\<lambda>j. \<lparr>d = 0, M1 = 0, M2 = 0, M3 = 0, E = 0\<rparr>),
        Uhalf = (\<lambda>i n. 0)\<rparr>" 2 8 SECOND_ORDER 1 1 1 0 0 3]
  by simp

end
